theory Spec2Isabelle
  imports Complex_Main "HOL-Library.Sublist"
begin

section \<open>HTTP requests issued by the front end\<close>

text \<open>
  The front end talks to the order service through axios. A call such as
  \<^verbatim>\<open>axios.post(`${BASE_URL}/${id}/cancel`)\<close> is modelled by the request it issues: the
  method, the URL as the parts of the template literal, and the body, if any. An object
  literal sent as a body is the list of its properties in the order they are written.
\<close>

datatype http_method = GET | POST | PUT | DELETE

datatype url_part = Lit string | Num int

record 'b request =
  req_method :: http_method
  req_url :: "url_part list"
  req_body :: "'b option"

type_synonym 'v obj = "(string \<times> 'v) list"

definition obj_keys :: "'v obj \<Rightarrow> string list" where
  "obj_keys ob = map fst ob"

definition obj_get :: "'v obj \<Rightarrow> string \<Rightarrow> 'v option" where
  "obj_get ob k = map_of ob k"

text \<open>
  \<^verbatim>\<open>const API_URL = process.env.REACT_APP_API_URL || 'http://localhost:8000'\<close>:
  the environment variable may be undefined (\<open>None\<close>) or the empty string, and both
  are falsy.
\<close>

definition API_URL :: "string option \<Rightarrow> string" where
  "API_URL env = (case env of None \<Rightarrow> ''http://localhost:8000''
                  | Some u \<Rightarrow> if u = [] then ''http://localhost:8000'' else u)"

section \<open>Order management: types.ts\<close>

datatype OrderStatus = PENDING | ACTIVE | FILLED | CANCELLED | FAILED

datatype OrderType = MARKET | LIMIT | STOP | STOP_LIMIT

datatype OrderSide = BUY | SELL

fun OrderStatus_value :: "OrderStatus \<Rightarrow> string" where
  "OrderStatus_value PENDING = ''pending''"
| "OrderStatus_value ACTIVE = ''active''"
| "OrderStatus_value FILLED = ''filled''"
| "OrderStatus_value CANCELLED = ''cancelled''"
| "OrderStatus_value FAILED = ''failed''"

text \<open>Modelled from the spec: \<open>FILLED\<close>, \<open>CANCELLED\<close> and \<open>FAILED\<close> are the terminal
  statuses (\<^verbatim>\<open>types.ts\<close> lists the five statuses and does not single them out).\<close>

definition terminal :: "OrderStatus \<Rightarrow> bool" where
  "terminal s = (s = FILLED \<or> s = CANCELLED \<or> s = FAILED)"

fun OrderType_value :: "OrderType \<Rightarrow> string" where
  "OrderType_value MARKET = ''market''"
| "OrderType_value LIMIT = ''limit''"
| "OrderType_value STOP = ''stop''"
| "OrderType_value STOP_LIMIT = ''stop_limit''"

fun OrderSide_value :: "OrderSide \<Rightarrow> string" where
  "OrderSide_value BUY = ''buy''"
| "OrderSide_value SELL = ''sell''"

text \<open>Optional properties (\<^verbatim>\<open>price?: number\<close>) are options; \<^verbatim>\<open>number\<close> is a rational
  for quantities and prices and an integer for identifiers and sequence numbers.\<close>

record Order =
  id :: int
  title :: string
  description :: "string option"
  status :: OrderStatus
  symbol :: string
  quantity :: rat
  order_type :: OrderType
  side :: OrderSide
  price :: "rat option"
  stop_price :: "rat option"
  limit_price :: "rat option"
  provider :: string
  provider_order_id :: "string option"
  chain_id :: "string option"
  chain_type :: "string option"
  chain_sequence :: "int option"
  parent_order_id :: "int option"
  created_at :: string
  updated_at :: string

section \<open>Order management: api.ts\<close>

definition orders_BASE_URL :: "string option \<Rightarrow> url_part list" where
  "orders_BASE_URL env = [Lit (API_URL env), Lit ''/api/orders'']"

definition getOrders :: "string option \<Rightarrow> 'b request" where
  "getOrders env = \<lparr>req_method = GET, req_url = orders_BASE_URL env, req_body = None\<rparr>"

definition createOrder :: "string option \<Rightarrow> 'o \<Rightarrow> 'o request" where
  "createOrder env order = \<lparr>req_method = POST, req_url = orders_BASE_URL env, req_body = Some order\<rparr>"

definition cancelOrder :: "string option \<Rightarrow> int \<Rightarrow> 'b request" where
  "cancelOrder env i =
     \<lparr>req_method = POST, req_url = orders_BASE_URL env @ [Lit ''/'', Num i, Lit ''/cancel''], req_body = None\<rparr>"

definition deleteOrder :: "string option \<Rightarrow> int \<Rightarrow> 'b request" where
  "deleteOrder env i =
     \<lparr>req_method = DELETE, req_url = orders_BASE_URL env @ [Lit ''/'', Num i], req_body = None\<rparr>"

text \<open>The chain operations post an object literal whose properties hold the order
  specifications they were given. The functions do not look inside a specification, so
  they are polymorphic in its type.\<close>

definition createOrderChain :: "string option \<Rightarrow> 'o list \<Rightarrow> ('o list) obj request" where
  "createOrderChain env orders =
     \<lparr>req_method = POST, req_url = orders_BASE_URL env @ [Lit ''/chain''], req_body = Some [(''orders'', orders)]\<rparr>"

definition createBracketOrder :: "string option \<Rightarrow> 'o \<Rightarrow> 'o \<Rightarrow> 'o \<Rightarrow> 'o obj request" where
  "createBracketOrder env entry takeProfit stopLoss =
     \<lparr>req_method = POST, req_url = orders_BASE_URL env @ [Lit ''/bracket''],
      req_body = Some [(''entry_order'', entry),
                   (''take_profit'', takeProfit),
                   (''stop_loss'', stopLoss)]\<rparr>"

definition createOCOOrder :: "string option \<Rightarrow> 'o \<Rightarrow> 'o \<Rightarrow> 'o obj request" where
  "createOCOOrder env limitOrder stopOrder =
     \<lparr>req_method = POST, req_url = orders_BASE_URL env @ [Lit ''/oco''],
      req_body = Some [(''limit_order'', limitOrder),
                   (''stop_order'', stopOrder)]\<rparr>"

section \<open>Order management: the order list\<close>

text \<open>
  Each row of \<^verbatim>\<open>OrderList\<close> carries three icon buttons: cancel, delete and details.
  A button is its \<^verbatim>\<open>disabled\<close> property and its \<^verbatim>\<open>onClick\<close> handler; a disabled
  button does not run its handler, which is how the browser treats the property. A
  handler is modelled by the requests it issues: \<^verbatim>\<open>handleCancelOrder\<close> awaits the cancel
  request and, when that succeeded (\<open>ok\<close>), refetches the list; when it failed the error
  is logged and nothing more is sent.
\<close>

datatype row_button = CancelButton | DeleteButton | DetailsButton

definition handleCancelOrder :: "string option \<Rightarrow> bool \<Rightarrow> int \<Rightarrow> unit request list" where
  "handleCancelOrder env ok orderId =
     cancelOrder env orderId # (if ok then [getOrders env] else [])"

definition handleDeleteOrder :: "string option \<Rightarrow> bool \<Rightarrow> int \<Rightarrow> unit request list" where
  "handleDeleteOrder env ok orderId =
     deleteOrder env orderId # (if ok then [getOrders env] else [])"

fun button_disabled :: "row_button \<Rightarrow> Order \<Rightarrow> bool" where
  "button_disabled CancelButton order = (Order.status order \<noteq> ACTIVE)"
| "button_disabled DeleteButton order = (Order.status order = ACTIVE)"
| "button_disabled DetailsButton order = False"

fun button_onClick :: "string option \<Rightarrow> bool \<Rightarrow> row_button \<Rightarrow> Order \<Rightarrow> unit request list" where
  "button_onClick env ok CancelButton order = handleCancelOrder env ok (Order.id order)"
| "button_onClick env ok DeleteButton order = handleDeleteOrder env ok (Order.id order)"
| "button_onClick env ok DetailsButton order = []"

definition click :: "string option \<Rightarrow> bool \<Rightarrow> row_button \<Rightarrow> Order \<Rightarrow> unit request list" where
  "click env ok b order =
     (if button_disabled b order then [] else button_onClick env ok b order)"

subsection \<open>The order list over api/orders\<close>

text \<open>
  The repository holds a second \<^verbatim>\<open>OrderList\<close>, which takes \<^verbatim>\<open>Order\<close> and \<^verbatim>\<open>ordersApi\<close>
  from \<^verbatim>\<open>../api/orders\<close>. There the status is a plain string, a row has a cancel button
  only, and the handler does not refetch.
\<close>

record orders_Order =
  id :: int
  title :: string
  description :: "string option"
  status :: string
  symbol :: string
  quantity :: rat
  order_type :: string
  side :: string
  price :: "rat option"
  provider :: string
  created_at :: string
  updated_at :: string

definition orders_cancelOrder :: "string option \<Rightarrow> int \<Rightarrow> unit request" where
  "orders_cancelOrder env i =
     \<lparr>req_method = POST,
      req_url = [Lit (API_URL env), Lit ''/api/orders/'', Num i, Lit ''/cancel''],
      req_body = None\<rparr>"

definition orders_handleCancelOrder :: "string option \<Rightarrow> int \<Rightarrow> unit request list" where
  "orders_handleCancelOrder env orderId = [orders_cancelOrder env orderId]"

definition orders_cancel_disabled :: "orders_Order \<Rightarrow> bool" where
  "orders_cancel_disabled order = (orders_Order.status order \<noteq> ''active'')"

definition orders_click_cancel :: "string option \<Rightarrow> orders_Order \<Rightarrow> unit request list" where
  "orders_click_cancel env order =
     (if orders_cancel_disabled order then []
      else orders_handleCancelOrder env (orders_Order.id order))"



section \<open>Order management: the order-creation form\<close>

text \<open>
  \<^verbatim>\<open>formData\<close> is typed \<^verbatim>\<open>CreateOrderRequest\<close>, but \<^verbatim>\<open>handleChange\<close> writes whatever
  value the input reports under whatever name the input has
  (\<^verbatim>\<open>{...prev, [name as string]: value}\<close>), so the state is modelled as the object it is
  at run time: a list of properties whose values are strings (every input reports a
  string) or numbers (the initial quantity \<^verbatim>\<open>0\<close>).
\<close>

datatype jsval = JStr string | JNum rat

text \<open>\<^verbatim>\<open>{...prev, [name]: value}\<close>: an existing property keeps its place and takes the
  new value; a new property is added at the end.\<close>

fun obj_set :: "string \<Rightarrow> 'v \<Rightarrow> 'v obj \<Rightarrow> 'v obj" where
  "obj_set k v [] = [(k, v)]"
| "obj_set k v (p # ob) = (if fst p = k then (k, v) # ob else p # obj_set k v ob)"

definition PROVIDERS :: "string list" where
  "PROVIDERS = [''alpaca'']"

definition initial_formData :: "jsval obj" where
  "initial_formData =
     [(''title'', JStr ''''),
      (''symbol'', JStr ''''),
      (''quantity'', JNum 0),
      (''order_type'', JStr (OrderType_value MARKET)),
      (''side'', JStr (OrderSide_value BUY)),
      (''provider'', JStr (hd PROVIDERS))]"

definition handleChange :: "string \<Rightarrow> jsval \<Rightarrow> jsval obj \<Rightarrow> jsval obj" where
  "handleChange name v prev = obj_set name v prev"

text \<open>The conditions under which the two price inputs are rendered.\<close>

definition is_type :: "jsval obj \<Rightarrow> OrderType \<Rightarrow> bool" where
  "is_type formData t = (obj_get formData ''order_type'' = Some (JStr (OrderType_value t)))"

definition shows_limit_price :: "jsval obj \<Rightarrow> bool" where
  "shows_limit_price formData =
     (\<not> is_type formData MARKET \<and> (is_type formData LIMIT \<or> is_type formData STOP_LIMIT))"

definition shows_stop_price :: "jsval obj \<Rightarrow> bool" where
  "shows_stop_price formData =
     (\<not> is_type formData MARKET \<and> (is_type formData STOP \<or> is_type formData STOP_LIMIT))"

text \<open>The names of the inputs the form renders, in the order of the JSX.\<close>

definition inputs :: "jsval obj \<Rightarrow> string list" where
  "inputs formData =
     [''title'', ''symbol'', ''quantity'', ''order_type'', ''side'', ''provider'']
     @ (if shows_limit_price formData then [''limit_price''] else [])
     @ (if shows_stop_price formData then [''stop_price''] else [])"

text \<open>
  What an input can report: a select reports one of its menu items, a text field a
  string (any string here, although a number field reports numerals only).
\<close>

definition options :: "string \<Rightarrow> string list option" where
  "options name =
     (if name = ''order_type'' then Some (map OrderType_value [MARKET, LIMIT, STOP, STOP_LIMIT])
      else if name = ''side'' then Some (map OrderSide_value [BUY, SELL])
      else if name = ''provider'' then Some PROVIDERS
      else None)"

definition can_report :: "jsval obj \<Rightarrow> string \<Rightarrow> jsval \<Rightarrow> bool" where
  "can_report formData name v =
     (name \<in> set (inputs formData) \<and>
      (case v of JNum _ \<Rightarrow> False
       | JStr s \<Rightarrow> (case options name of None \<Rightarrow> True | Some os \<Rightarrow> s \<in> set os)))"

text \<open>
  The text fields are all \<^verbatim>\<open>required\<close>: the browser does not deliver the submit event
  while a rendered text field is empty. A price field shows \<^verbatim>\<open>formData.limit_price || ''\<close>.
\<close>

definition shown_empty :: "jsval obj \<Rightarrow> string \<Rightarrow> bool" where
  "shown_empty formData name =
     (case obj_get formData name of None \<Rightarrow> True
      | Some (JStr s) \<Rightarrow> s = []
      | Some (JNum n) \<Rightarrow> (name = ''limit_price'' \<or> name = ''stop_price'') \<and> n = 0)"

definition can_submit :: "jsval obj \<Rightarrow> bool" where
  "can_submit formData =
     (\<forall>name \<in> set (inputs formData). options name = None \<longrightarrow> \<not> shown_empty formData name)"

definition handleSubmit :: "string option \<Rightarrow> jsval obj \<Rightarrow> (jsval obj) request list" where
  "handleSubmit env formData = [createOrder env formData]"

text \<open>
  A user event either changes an input or submits the form; \<open>Submit ok\<close> says whether
  the service accepted the order, in which case \<^verbatim>\<open>onSuccess\<close> resets the form. An event
  the page cannot deliver (a change of an input that is not rendered, a submit the
  browser blocks) leaves everything as it is.
\<close>

datatype form_event = Change string jsval | Submit bool

fun form_step ::
  "string option \<Rightarrow> jsval obj \<times> (jsval obj) request list \<Rightarrow> form_event
     \<Rightarrow> jsval obj \<times> (jsval obj) request list" where
  "form_step env (formData, sent) (Change name v) =
     (if can_report formData name v then (handleChange name v formData, sent)
      else (formData, sent))"
| "form_step env (formData, sent) (Submit ok) =
     (if can_submit formData
      then (if ok then initial_formData else formData, sent @ handleSubmit env formData)
      else (formData, sent))"

definition use_form :: "string option \<Rightarrow> form_event list \<Rightarrow> jsval obj \<times> (jsval obj) request list" where
  "use_form env events = foldl (form_step env) (initial_formData, []) events"

text \<open>The generic \<^verbatim>\<open>price\<close> property is absent from the form data and from the body of
  every request sent so far.\<close>

definition price_free :: "jsval obj \<times> (jsval obj) request list \<Rightarrow> bool" where
  "price_free s =
     (obj_get (fst s) ''price'' = None
      \<and> (\<forall>r \<in> set (snd s). \<exists>b. req_body r = Some b \<and> obj_get b ''price'' = None))"

section \<open>Discord integration: types.ts\<close>

datatype WebhookEvent =
  ORDER_CREATED | ORDER_UPDATED | ORDER_CANCELLED | ORDER_FILLED | ORDER_FAILED

fun WebhookEvent_value :: "WebhookEvent \<Rightarrow> string" where
  "WebhookEvent_value ORDER_CREATED = ''order_created''"
| "WebhookEvent_value ORDER_UPDATED = ''order_updated''"
| "WebhookEvent_value ORDER_CANCELLED = ''order_cancelled''"
| "WebhookEvent_value ORDER_FILLED = ''order_filled''"
| "WebhookEvent_value ORDER_FAILED = ''order_failed''"

record WebhookConfig =
  id :: int
  name :: string
  url :: string
  events :: "WebhookEvent list"
  is_active :: bool
  created_at :: string
  updated_at :: string

record CreateWebhookRequest =
  name :: string
  url :: string
  events :: "WebhookEvent list"

text \<open>Every property of \<^verbatim>\<open>UpdateWebhookRequest\<close> is optional; a property that the object
  does not have is \<open>None\<close>.\<close>

record UpdateWebhookRequest =
  name :: "string option"
  url :: "string option"
  events :: "WebhookEvent list option"
  is_active :: "bool option"

section \<open>Discord integration: api.ts\<close>

definition webhooks_BASE_URL :: "string option \<Rightarrow> url_part list" where
  "webhooks_BASE_URL env = [Lit (API_URL env), Lit ''/api/webhooks'']"


definition createWebhook :: "string option \<Rightarrow> CreateWebhookRequest \<Rightarrow> CreateWebhookRequest request" where
  "createWebhook env webhook =
     \<lparr>req_method = POST, req_url = webhooks_BASE_URL env, req_body = Some webhook\<rparr>"


definition deleteWebhook :: "string option \<Rightarrow> int \<Rightarrow> 'b request" where
  "deleteWebhook env i =
     \<lparr>req_method = DELETE, req_url = webhooks_BASE_URL env @ [Lit ''/'', Num i], req_body = None\<rparr>"

definition testWebhook :: "string option \<Rightarrow> int \<Rightarrow> 'b request" where
  "testWebhook env i =
     \<lparr>req_method = POST, req_url = webhooks_BASE_URL env @ [Lit ''/'', Num i, Lit ''/test''],
      req_body = None\<rparr>"

section \<open>Discord integration: the webhook-creation form\<close>

text \<open>
  The form keeps two pieces of state, \<^verbatim>\<open>formData\<close> and \<^verbatim>\<open>error\<close>. Each handler
  returns the new state and the requests it issued.
\<close>

record CreateWebhookForm =
  formData :: CreateWebhookRequest
  error :: "string option"

definition CreateWebhookForm_initial :: CreateWebhookForm where
  "CreateWebhookForm_initial =
     \<lparr>formData = \<lparr>CreateWebhookRequest.name = '''', url = '''', events = []\<rparr>, error = None\<rparr>"

definition CreateWebhookForm_handleSubmit ::
  "string option \<Rightarrow> CreateWebhookForm \<Rightarrow> CreateWebhookForm \<times> CreateWebhookRequest request list" where
  "CreateWebhookForm_handleSubmit env st =
     (if length (CreateWebhookRequest.events (formData st)) = 0
      then (st\<lparr>error := Some ''Please select at least one event''\<rparr>, [])
      else (st, [createWebhook env (formData st)]))"

text \<open>The two text fields of the form are named \<^verbatim>\<open>name\<close> and \<^verbatim>\<open>url\<close>;
  \<^verbatim>\<open>handleChange\<close> is only ever called with one of these names.\<close>

datatype webhook_text_field = name_field | url_field

fun CreateWebhookForm_handleChange ::
  "webhook_text_field \<Rightarrow> string \<Rightarrow> CreateWebhookForm \<Rightarrow> CreateWebhookForm" where
  "CreateWebhookForm_handleChange name_field v st =
     st\<lparr>formData := (formData st)\<lparr>CreateWebhookRequest.name := v\<rparr>, error := None\<rparr>"
| "CreateWebhookForm_handleChange url_field v st =
     st\<lparr>formData := (formData st)\<lparr>CreateWebhookRequest.url := v\<rparr>, error := None\<rparr>"

definition handleEventToggle :: "WebhookEvent \<Rightarrow> CreateWebhookForm \<Rightarrow> CreateWebhookForm" where
  "handleEventToggle event st =
     (let prev = formData st in
      st\<lparr>formData := prev\<lparr>CreateWebhookRequest.events :=
             (if event \<in> set (CreateWebhookRequest.events prev)
              then filter (\<lambda>e. e \<noteq> event) (CreateWebhookRequest.events prev)
              else CreateWebhookRequest.events prev @ [event])\<rparr>,
         error := None\<rparr>)"

text \<open>The callbacks of the mutation: \<^verbatim>\<open>onSuccess\<close> resets the form, \<^verbatim>\<open>onError\<close> shows
  the detail the service sent, or a fixed message when there is none (or an empty one).\<close>

definition CreateWebhookForm_onSuccess :: "CreateWebhookForm \<Rightarrow> CreateWebhookForm" where
  "CreateWebhookForm_onSuccess st = CreateWebhookForm_initial"

definition CreateWebhookForm_onError :: "string option \<Rightarrow> CreateWebhookForm \<Rightarrow> CreateWebhookForm" where
  "CreateWebhookForm_onError detail st =
     st\<lparr>error := Some (case detail of None \<Rightarrow> ''Failed to create webhook''
                        | Some d \<Rightarrow> if d = [] then ''Failed to create webhook'' else d)\<rparr>"

section \<open>Discord integration: the webhook list\<close>




section \<open>The order chain engine\<close>

text \<open>
  The chain builder, the transition engine and the notification dispatcher run in the
  service behind \<^verbatim>\<open>/api/orders\<close> and \<^verbatim>\<open>/api/webhooks\<close>. The front end above only calls
  that service, so the three components are modelled from their specification, over the
  \<^verbatim>\<open>Order\<close> and \<^verbatim>\<open>WebhookConfig\<close> types that the front end declares.
\<close>

text \<open>Modelled from the spec: the three chain types, and the names under which an order
  records the type of its chain (\<^verbatim>\<open>chain_type\<close> is a string in \<^verbatim>\<open>types.ts\<close>).\<close>

datatype ChainType = SEQUENTIAL | BRACKET | OCO

fun ChainType_value :: "ChainType \<Rightarrow> string" where
  "ChainType_value SEQUENTIAL = ''SEQUENTIAL''"
| "ChainType_value BRACKET = ''BRACKET''"
| "ChainType_value OCO = ''OCO''"

text \<open>Modelled from the spec: the edge of the data model, whose condition type is one of
  three (\<^verbatim>\<open>types.ts\<close> declares the same four properties, the condition type as a string).\<close>

datatype ConditionType = on_fill | on_cancel | on_failure

record OrderEdge =
  from_order_id :: int
  to_order_id :: int
  condition_type :: ConditionType
  condition_data :: "string obj"

text \<open>Modelled from the spec: the order store, a flat list of orders and a flat list of
  edges that refer to orders by id. \<open>next_id\<close> is the id the store gives to the next
  order.\<close>

record Store =
  orders :: "Order list"
  edges :: "OrderEdge list"
  next_id :: int

text \<open>Modelled from the spec: the venue adapter, \<^verbatim>\<open>submit(orderSpec) -> providerOrderId | fails\<close>
  and \<^verbatim>\<open>cancel(providerOrderId) -> ok | fails\<close>. The adapter retries by itself; a
  failure here is one that remained after its retries.\<close>

record Venue =
  submit :: "Order \<Rightarrow> string option"
  cancel :: "string \<Rightarrow> bool"

text \<open>Modelled from the spec: access to the store by order id. Looking an order up finds
  the first order of that id, or none; an update rewrites the orders of that id and
  leaves the edges alone.\<close>

definition find_order :: "Store \<Rightarrow> int \<Rightarrow> Order option" where
  "find_order st i = find (\<lambda>ord. Order.id ord = i) (orders st)"

definition status_of :: "Store \<Rightarrow> int \<Rightarrow> OrderStatus option" where
  "status_of st i = map_option Order.status (find_order st i)"

definition update_order :: "int \<Rightarrow> (Order \<Rightarrow> Order) \<Rightarrow> Store \<Rightarrow> Store" where
  "update_order i f st =
     st\<lparr>orders := map (\<lambda>ord. if Order.id ord = i then f ord else ord) (orders st)\<rparr>"

subsection \<open>Chain builder\<close>

text \<open>The order specification of a creation request is the \<^verbatim>\<open>CreateOrderRequest\<close> of
  \<^verbatim>\<open>types.ts\<close>.\<close>

record CreateOrderRequest =
  title :: string
  description :: "string option"
  symbol :: string
  quantity :: rat
  order_type :: OrderType
  side :: OrderSide
  price :: "rat option"
  stop_price :: "rat option"
  limit_price :: "rat option"
  provider :: string
  chain_id :: "string option"
  chain_type :: "string option"
  chain_sequence :: "int option"
  parent_order_id :: "int option"

text \<open>Modelled from the spec: the two errors of chain creation.\<close>

datatype ChainError = ValidationError | SubmissionError

text \<open>Modelled from the spec: the cardinality of a chain. A bracket has exactly three
  orders, an OCO exactly two; nothing is said about the length of a sequential chain.\<close>

fun cardinality_ok :: "ChainType \<Rightarrow> nat \<Rightarrow> bool" where
  "cardinality_ok BRACKET n = (n = 3)"
| "cardinality_ok OCO n = (n = 2)"
| "cardinality_ok SEQUENTIAL n = True"

text \<open>Modelled from the spec: every order of a chain is created \<open>PENDING\<close> under the
  shared chain id, with its place in the chain as sequence number.\<close>

definition new_order ::
  "string \<Rightarrow> string \<Rightarrow> ChainType \<Rightarrow> int \<times> int \<times> CreateOrderRequest \<Rightarrow> Order" where
  "new_order now cid ct e =
     (case e of (oid, seq, spec) \<Rightarrow>
      \<lparr>Order.id = oid,
       title = CreateOrderRequest.title spec,
       description = CreateOrderRequest.description spec,
       status = PENDING,
       symbol = CreateOrderRequest.symbol spec,
       quantity = CreateOrderRequest.quantity spec,
       order_type = CreateOrderRequest.order_type spec,
       side = CreateOrderRequest.side spec,
       price = CreateOrderRequest.price spec,
       stop_price = CreateOrderRequest.stop_price spec,
       limit_price = CreateOrderRequest.limit_price spec,
       provider = CreateOrderRequest.provider spec,
       provider_order_id = None,
       chain_id = Some cid,
       chain_type = Some (ChainType_value ct),
       chain_sequence = Some seq,
       parent_order_id = CreateOrderRequest.parent_order_id spec,
       created_at = now,
       updated_at = now\<rparr>)"

text \<open>Modelled from the spec: the edge set of a chain. Sequential: order \<open>i\<close> to order
  \<open>i + 1\<close>. Bracket: entry to take-profit, entry to stop-loss, and the two exits to each
  other. OCO: the two legs to each other. All are \<open>on_fill\<close> edges; whether such an edge
  activates or cancels its target is decided by the transition engine.\<close>

definition on_fill_edge :: "int \<Rightarrow> int \<Rightarrow> OrderEdge" where
  "on_fill_edge a b =
     \<lparr>from_order_id = a, to_order_id = b, condition_type = on_fill, condition_data = []\<rparr>"

fun sequential_edges :: "int list \<Rightarrow> OrderEdge list" where
  "sequential_edges (a # b # rest) = on_fill_edge a b # sequential_edges (b # rest)"
| "sequential_edges _ = []"

fun chain_edges :: "ChainType \<Rightarrow> int list \<Rightarrow> OrderEdge list" where
  "chain_edges SEQUENTIAL ids = sequential_edges ids"
| "chain_edges BRACKET [entry, tp, sl] =
     [on_fill_edge entry tp, on_fill_edge entry sl, on_fill_edge tp sl, on_fill_edge sl tp]"
| "chain_edges OCO [a, b] = [on_fill_edge a b, on_fill_edge b a]"
| "chain_edges _ _ = []"

text \<open>Modelled from the spec: the orders submitted at creation: the entry of a bracket,
  both legs of an OCO, the first order of a sequential chain.\<close>

fun eligible :: "ChainType \<Rightarrow> int list \<Rightarrow> int list" where
  "eligible OCO ids = ids"
| "eligible _ ids = take 1 ids"

text \<open>Modelled from the spec: submission of the eligible orders. An accepted order becomes
  \<open>ACTIVE\<close> and records the id the venue gave it; one rejection fails the whole chain.\<close>

fun submit_eligible :: "Venue \<Rightarrow> int list \<Rightarrow> Order list \<Rightarrow> Order list option" where
  "submit_eligible venue elig [] = Some []"
| "submit_eligible venue elig (ord # rest) =
     (if Order.id ord \<in> set elig
      then (case submit venue ord of
              None \<Rightarrow> None
            | Some pid \<Rightarrow>
                map_option ((#) (ord\<lparr>Order.status := ACTIVE, provider_order_id := Some pid\<rparr>))
                  (submit_eligible venue elig rest))
      else map_option ((#) ord) (submit_eligible venue elig rest))"

text \<open>
  Modelled from the spec: chain creation by the chain builder, the service code behind
  \<^verbatim>\<open>POST /api/orders/chain\<close>, \<^verbatim>\<open>/bracket\<close> and \<^verbatim>\<open>/oco\<close>. The request is the chain type
  and the list of order specifications. A request of the wrong cardinality is rejected with
  \<open>ValidationError\<close> before anything is persisted. The spec names two more grounds for a
  \<open>ValidationError\<close> (cyclic edges, inconsistent chain id or sequence) without saying what
  they test; they are the parameter \<open>well_formed\<close>. If the venue rejects an eligible
  order the creation fails with \<open>SubmissionError\<close> and the store is as before; otherwise
  orders and edges are persisted together. \<open>now\<close> is the time of creation and \<open>cid\<close> the
  chain id assigned to the chain.
\<close>

definition createChain ::
  "Venue \<Rightarrow> (ChainType \<Rightarrow> CreateOrderRequest list \<Rightarrow> bool) \<Rightarrow> string \<Rightarrow> string
     \<Rightarrow> ChainType \<Rightarrow> CreateOrderRequest list \<Rightarrow> Store \<Rightarrow> (ChainError + Order list) \<times> Store" where
  "createChain venue well_formed now cid ct specs st =
     (if \<not> cardinality_ok ct (length specs) \<or> \<not> well_formed ct specs
      then (Inl ValidationError, st)
      else
        (let n = length specs;
             ids = map (\<lambda>k. next_id st + int k) [0..<n];
             pending = map (new_order now cid ct) (zip ids (zip (map int [0..<n]) specs))
         in case submit_eligible venue (eligible ct ids) pending of
              None \<Rightarrow> (Inl SubmissionError, st)
            | Some created \<Rightarrow>
                (Inr created,
                 st\<lparr>orders := orders st @ created,
                    edges := edges st @ chain_edges ct ids,
                    next_id := next_id st + int n\<rparr>)))"

text \<open>Modelled from the spec: the three operations of the chain builder,
  \<^verbatim>\<open>createSequential(orderedSpecs)\<close>, \<^verbatim>\<open>createBracket(entry, takeProfit, stopLoss)\<close> and
  \<^verbatim>\<open>createOCO(a, b)\<close>.\<close>

definition createSequential ::
  "Venue \<Rightarrow> (ChainType \<Rightarrow> CreateOrderRequest list \<Rightarrow> bool) \<Rightarrow> string \<Rightarrow> string
     \<Rightarrow> CreateOrderRequest list \<Rightarrow> Store \<Rightarrow> (ChainError + Order list) \<times> Store" where
  "createSequential venue well_formed now cid orderedSpecs st =
     createChain venue well_formed now cid SEQUENTIAL orderedSpecs st"

definition createBracket ::
  "Venue \<Rightarrow> (ChainType \<Rightarrow> CreateOrderRequest list \<Rightarrow> bool) \<Rightarrow> string \<Rightarrow> string
     \<Rightarrow> CreateOrderRequest \<Rightarrow> CreateOrderRequest \<Rightarrow> CreateOrderRequest \<Rightarrow> Store
     \<Rightarrow> (ChainError + Order list) \<times> Store" where
  "createBracket venue well_formed now cid entry takeProfit stopLoss st =
     createChain venue well_formed now cid BRACKET [entry, takeProfit, stopLoss] st"

definition createOCO ::
  "Venue \<Rightarrow> (ChainType \<Rightarrow> CreateOrderRequest list \<Rightarrow> bool) \<Rightarrow> string \<Rightarrow> string
     \<Rightarrow> CreateOrderRequest \<Rightarrow> CreateOrderRequest \<Rightarrow> Store
     \<Rightarrow> (ChainError + Order list) \<times> Store" where
  "createOCO venue well_formed now cid a b st =
     createChain venue well_formed now cid OCO [a, b] st"

subsection \<open>Transition engine\<close>

text \<open>Modelled from the spec: the state machine of an order,
  \<open>PENDING \<rightarrow> ACTIVE \<rightarrow> {FILLED, CANCELLED, FAILED}\<close> and any non-terminal status to
  \<open>FAILED\<close>. \<open>forward cur new\<close> says that a report of \<open>new\<close> is forward progress for an
  order whose status is \<open>cur\<close>.\<close>

fun forward :: "OrderStatus \<Rightarrow> OrderStatus \<Rightarrow> bool" where
  "forward PENDING ACTIVE = True"
| "forward PENDING FAILED = True"
| "forward ACTIVE FILLED = True"
| "forward ACTIVE CANCELLED = True"
| "forward ACTIVE FAILED = True"
| "forward _ _ = False"

text \<open>Modelled from the spec: the dependent actions an edge can trigger. The engine
  returns the actions it executed, in order.\<close>

datatype EdgeAction = SubmitTarget int | CancelTarget int

fun action_target :: "EdgeAction \<Rightarrow> int" where
  "action_target (SubmitTarget t) = t"
| "action_target (CancelTarget t) = t"

text \<open>Modelled from the spec: submitting a dependent order sets it \<open>ACTIVE\<close>; cancelling
  one sets it \<open>CANCELLED\<close>. When the venue call fails for good, the dependent order is
  marked \<open>FAILED\<close> instead. An order that was never submitted has nothing to cancel at
  the venue.\<close>

definition submit_target :: "Venue \<Rightarrow> Order \<Rightarrow> Order" where
  "submit_target venue target =
     (case submit venue target of
        Some pid \<Rightarrow> target\<lparr>Order.status := ACTIVE, provider_order_id := Some pid\<rparr>
      | None \<Rightarrow> target\<lparr>Order.status := FAILED\<rparr>)"

definition cancel_acknowledged :: "Venue \<Rightarrow> Order \<Rightarrow> bool" where
  "cancel_acknowledged venue target =
     (case provider_order_id target of None \<Rightarrow> True | Some pid \<Rightarrow> cancel venue pid)"

definition cancel_target :: "Venue \<Rightarrow> Order \<Rightarrow> Order" where
  "cancel_target venue target =
     (if cancel_acknowledged venue target
      then target\<lparr>Order.status := CANCELLED\<rparr>
      else target\<lparr>Order.status := FAILED\<rparr>)"

text \<open>
  Modelled from the spec: the action of one outgoing edge after its source \<open>src\<close> took
  the status \<open>new\<close>.
  \<^item> \<open>on_fill\<close> and \<open>FILLED\<close>, target \<open>PENDING\<close>: submit the target.
  \<^item> \<open>on_fill\<close> and \<open>FILLED\<close>, target \<open>ACTIVE\<close> or non-terminal, and not the fill
    source: cancel the target.
  \<^item> \<open>on_cancel\<close> (and \<open>CANCELLED\<close>): cancel the target if it is \<open>PENDING\<close> or \<open>ACTIVE\<close>.
  No action is given for \<open>on_failure\<close>, and an edge whose target is not in the store
  does nothing.
\<close>

definition edge_action ::
  "Venue \<Rightarrow> int \<Rightarrow> OrderStatus \<Rightarrow> OrderEdge \<Rightarrow> Store \<Rightarrow> Store \<times> EdgeAction list" where
  "edge_action venue src new e st =
     (let t = to_order_id e in
      case find_order st t of
        None \<Rightarrow> (st, [])
      | Some target \<Rightarrow>
          if condition_type e = on_fill \<and> new = FILLED then
            (if Order.status target = PENDING
             then (update_order t (submit_target venue) st, [SubmitTarget t])
             else if (Order.status target = ACTIVE \<or> \<not> terminal (Order.status target)) \<and> t \<noteq> src
             then (update_order t (cancel_target venue) st, [CancelTarget t])
             else (st, []))
          else if condition_type e = on_cancel \<and> new = CANCELLED then
            (if Order.status target = PENDING \<or> Order.status target = ACTIVE
             then (update_order t (cancel_target venue) st, [CancelTarget t])
             else (st, []))
          else (st, []))"

text \<open>Modelled from the spec: the outgoing edges are loaded once and their actions run
  one after the other, each on the store the one before left.\<close>

fun process_edges ::
  "Venue \<Rightarrow> int \<Rightarrow> OrderStatus \<Rightarrow> OrderEdge list \<Rightarrow> Store \<Rightarrow> Store \<times> EdgeAction list" where
  "process_edges venue src new [] st = (st, [])"
| "process_edges venue src new (e # es) st =
     (case edge_action venue src new e st of
        (st1, acts1) \<Rightarrow>
          (case process_edges venue src new es st1 of
             (st2, acts2) \<Rightarrow> (st2, acts1 @ acts2)))"

text \<open>Modelled from the spec: the outgoing edges of an order, in the order of the
  store.\<close>

definition outgoing :: "Store \<Rightarrow> int \<Rightarrow> OrderEdge list" where
  "outgoing st i = filter (\<lambda>e. from_order_id e = i) (edges st)"

text \<open>
  Modelled from the spec: \<^verbatim>\<open>applyStatus(orderId, reportedStatus, fillDetails)\<close> of the
  transition engine, the service code that applies a status report of the venue.
  \<^enum> No-op if the order is already terminal, or if the reported status is not forward
    progress from the order's current status. (A report for an order the store does not
    hold is a no-op as well.)
  \<^enum> Otherwise commit the transition, then load the outgoing edges of the order and run
    the action of each.
  The data model has no place for the fill details, so the commit records the status.
\<close>

definition applyStatus ::
  "Venue \<Rightarrow> Store \<Rightarrow> int \<Rightarrow> OrderStatus \<Rightarrow> 'f \<Rightarrow> Store \<times> EdgeAction list" where
  "applyStatus venue st orderId reportedStatus fillDetails =
     (case find_order st orderId of
        None \<Rightarrow> (st, [])
      | Some ord \<Rightarrow>
          if terminal (Order.status ord) \<or> \<not> forward (Order.status ord) reportedStatus
          then (st, [])
          else
            (let committed = update_order orderId (\<lambda>x. x\<lparr>Order.status := reportedStatus\<rparr>) st
             in process_edges venue orderId reportedStatus (outgoing committed orderId) committed))"

subsection \<open>Notification dispatcher\<close>

text \<open>Modelled from the spec: a committed transition is the creation of an order or a
  change of its status, and has one of the five event types.\<close>

datatype TransitionKind = Creation | StatusChange OrderStatus

record Transition =
  transition_order :: Order
  transition_kind :: TransitionKind
  transition_time :: string

fun event_type :: "TransitionKind \<Rightarrow> WebhookEvent" where
  "event_type Creation = ORDER_CREATED"
| "event_type (StatusChange FILLED) = ORDER_FILLED"
| "event_type (StatusChange CANCELLED) = ORDER_CANCELLED"
| "event_type (StatusChange FAILED) = ORDER_FAILED"
| "event_type (StatusChange _) = ORDER_UPDATED"

text \<open>Modelled from the spec: a delivery task carries the subscription it is for and the
  payload: the order snapshot, the event type and the timestamp. A subscription is the
  \<^verbatim>\<open>WebhookConfig\<close> of the front end; it is subscribed to a transition when it is active
  and its events contain the event type of the transition.\<close>

record DeliveryTask =
  task_subscription :: int
  task_url :: string
  task_event :: WebhookEvent
  task_order :: Order
  task_time :: string

definition subscribed :: "Transition \<Rightarrow> WebhookConfig \<Rightarrow> bool" where
  "subscribed tr sub =
     (WebhookConfig.is_active sub
      \<and> event_type (transition_kind tr) \<in> set (WebhookConfig.events sub))"

definition delivery_task :: "Transition \<Rightarrow> WebhookConfig \<Rightarrow> DeliveryTask" where
  "delivery_task tr sub =
     \<lparr>task_subscription = WebhookConfig.id sub,
      task_url = WebhookConfig.url sub,
      task_event = event_type (transition_kind tr),
      task_order = transition_order tr,
      task_time = transition_time tr\<rparr>"

text \<open>Modelled from the spec: on a committed transition the notification dispatcher (the
  service code that feeds the webhooks) enqueues one delivery task per active
  subscription whose event set contains the event type of the transition. \<open>tasks_for\<close>
  selects the tasks of one subscription from a queue.\<close>

definition enqueue :: "Transition \<Rightarrow> WebhookConfig list \<Rightarrow> DeliveryTask list" where
  "enqueue tr subs = map (delivery_task tr) (filter (subscribed tr) subs)"

definition tasks_for :: "WebhookConfig \<Rightarrow> DeliveryTask list \<Rightarrow> DeliveryTask list" where
  "tasks_for sub queue = filter (\<lambda>t. task_subscription t = WebhookConfig.id sub) queue"

section \<open>Example data\<close>

text \<open>Concrete values on which the theorems below are instantiated: an order of the
  \<^verbatim>\<open>AAPL\<close> example, a venue that accepts every call, a store that holds an OCO chain of
  the orders 1 and 2 after both legs were submitted, an order specification and a
  webhook subscription.\<close>

definition example_order :: "int \<Rightarrow> OrderStatus \<Rightarrow> Order" where
  "example_order i s =
     \<lparr>Order.id = i, title = ''exit'', description = None, status = s, symbol = ''AAPL'',
      quantity = 10, order_type = LIMIT, side = SELL, price = None, stop_price = None,
      limit_price = Some 160, provider = ''alpaca'', provider_order_id = Some ''venue-id'',
      chain_id = Some ''chain-1'', chain_type = Some (ChainType_value OCO),
      chain_sequence = Some (i - 1), parent_order_id = None,
      created_at = ''2024-02-14T10:00:00'', updated_at = ''2024-02-14T10:00:00''\<rparr>"

definition example_venue :: Venue where
  "example_venue = \<lparr>submit = (\<lambda>ord. Some ''venue-id''), cancel = (\<lambda>pid. True)\<rparr>"

definition example_store :: Store where
  "example_store =
     \<lparr>orders = [example_order 1 ACTIVE, example_order 2 ACTIVE],
      edges = [on_fill_edge 1 2, on_fill_edge 2 1],
      next_id = 3\<rparr>"

definition example_spec :: CreateOrderRequest where
  "example_spec =
     \<lparr>CreateOrderRequest.title = ''entry'', description = None, symbol = ''AAPL'',
      quantity = 10, order_type = MARKET, side = BUY, price = None, stop_price = None,
      limit_price = None, provider = ''alpaca'', chain_id = None, chain_type = None,
      chain_sequence = None, parent_order_id = None\<rparr>"

definition example_webhook :: "int \<Rightarrow> WebhookEvent list \<Rightarrow> WebhookConfig" where
  "example_webhook i evs =
     \<lparr>WebhookConfig.id = i, name = ''alerts'', url = ''https://discord.com/api/webhooks/1'',
      events = evs, is_active = True,
      created_at = ''2024-02-14T10:00:00'', updated_at = ''2024-02-14T10:00:00''\<rparr>"



section \<open>Properties of the front end\<close>

subsection \<open>Shapes of the chain-creation requests\<close>

text \<open>
  C1, as the specification has it, fails on the code: the bracket request does not have
  the properties \<open>entry, take_profit, stop_loss\<close> (the entry order travels as
  \<open>entry_order\<close>), and the OCO request does not have the properties
  \<open>order_a, order_b\<close> (the legs travel as \<open>limit_order\<close> and \<open>stop_order\<close>).
\<close>

theorem C1_chain_request_fields_counterexample:
  "map_option obj_keys (req_body (createBracketOrder None ''e'' ''t'' ''s''))
     \<noteq> Some [''entry'', ''take_profit'', ''stop_loss'']
   \<and> map_option obj_keys (req_body (createOCOOrder None ''l'' ''s''))
     \<noteq> Some [''order_a'', ''order_b'']"
  by (simp add: createBracketOrder_def createOCOOrder_def obj_keys_def)

text \<open>
  C1, amended: every bracket-chain creation request has exactly the properties
  \<open>entry_order, take_profit, stop_loss\<close> and every OCO-chain creation request exactly
  the properties \<open>limit_order, stop_order\<close>, each holding the corresponding order
  specification unchanged.
\<close>

theorem C1_chain_request_fields:
  "(\<exists>b. req_body (createBracketOrder env entry takeProfit stopLoss) = Some b
      \<and> obj_keys b = [''entry_order'', ''take_profit'', ''stop_loss'']
      \<and> obj_get b ''entry_order'' = Some entry
      \<and> obj_get b ''take_profit'' = Some takeProfit
      \<and> obj_get b ''stop_loss'' = Some stopLoss)
   \<and> (\<exists>b. req_body (createOCOOrder env limitOrder stopOrder) = Some b
      \<and> obj_keys b = [''limit_order'', ''stop_order'']
      \<and> obj_get b ''limit_order'' = Some limitOrder
      \<and> obj_get b ''stop_order'' = Some stopOrder)"
  by (simp add: createBracketOrder_def createOCOOrder_def obj_keys_def obj_get_def)

text \<open>The amended C1 at a bracket and an OCO request over three example
  specifications.\<close>

theorem C1_chain_request_fields_witness:
  "(\<exists>b. req_body (createBracketOrder None example_spec
            (example_spec\<lparr>CreateOrderRequest.side := SELL, order_type := LIMIT, limit_price := Some 160\<rparr>)
            (example_spec\<lparr>CreateOrderRequest.side := SELL, order_type := STOP, stop_price := Some 140\<rparr>))
          = Some b
      \<and> obj_keys b = [''entry_order'', ''take_profit'', ''stop_loss'']
      \<and> obj_get b ''entry_order'' = Some example_spec)
   \<and> (\<exists>b. req_body (createOCOOrder None example_spec example_spec) = Some b
      \<and> obj_keys b = [''limit_order'', ''stop_order''])"
  using C1_chain_request_fields
    [of None example_spec
        "example_spec\<lparr>CreateOrderRequest.side := SELL, order_type := LIMIT, limit_price := Some 160\<rparr>"
        "example_spec\<lparr>CreateOrderRequest.side := SELL, order_type := STOP, stop_price := Some 140\<rparr>"
        example_spec example_spec]
  by auto

subsection \<open>The buttons of the order list\<close>

text \<open>
  The guard of the cancel button, on the status a row displays: the button is disabled
  unless the order is \<open>ACTIVE\<close>; for an order that is \<open>PENDING\<close>, \<open>FILLED\<close>,
  \<open>CANCELLED\<close> or \<open>FAILED\<close> a click on it sends nothing. Whatever button of a row is
  clicked, a cancel request goes out only for that row's order and only if it is
  displayed as \<open>ACTIVE\<close>, and for an order displayed in a terminal status the only
  requests a click can send are the delete of that order and the refetch of the list.
  The second list, which compares the status string with \<^verbatim>\<open>'active'\<close>, guards its
  cancel button in the same way.
\<close>

lemma cancel_button_guard:
  "(Order.status order \<in> {PENDING, FILLED, CANCELLED, FAILED}
      \<longrightarrow> button_disabled CancelButton order \<and> click env ok CancelButton order = [])
   \<and> (button_disabled CancelButton order \<longleftrightarrow> Order.status order \<noteq> ACTIVE)
   \<and> (\<forall>b i. cancelOrder env i \<in> set (click env ok b order)
          \<longrightarrow> Order.status order = ACTIVE \<and> i = Order.id order)
   \<and> (terminal (Order.status order)
          \<longrightarrow> (\<forall>b. set (click env ok b order)
                     \<subseteq> {deleteOrder env (Order.id order), getOrders env}))
   \<and> (orders_cancel_disabled old \<longleftrightarrow> orders_Order.status old \<noteq> ''active'')
   \<and> (orders_Order.status old \<noteq> ''active'' \<longrightarrow> orders_click_cancel env old = [])"
proof (intro conjI allI impI)
  assume "Order.status order \<in> {PENDING, FILLED, CANCELLED, FAILED}"
  then show "button_disabled CancelButton order" by auto
next
  assume "Order.status order \<in> {PENDING, FILLED, CANCELLED, FAILED}"
  then show "click env ok CancelButton order = []" by (auto simp: click_def)
next
  show "button_disabled CancelButton order = (Order.status order \<noteq> ACTIVE)" by simp
next
  fix b i assume "cancelOrder env i \<in> set (click env ok b order)"
  then show "Order.status order = ACTIVE"
    by (cases b)
      (auto simp: click_def handleCancelOrder_def handleDeleteOrder_def cancelOrder_def
         deleteOrder_def getOrders_def split: if_splits)
next
  fix b i assume "cancelOrder env i \<in> set (click env ok b order)"
  then show "i = Order.id order"
    by (cases b)
      (auto simp: click_def handleCancelOrder_def handleDeleteOrder_def cancelOrder_def
         deleteOrder_def getOrders_def split: if_splits)
next
  fix b assume "terminal (Order.status order)"
  then show "set (click env ok b order) \<subseteq> {deleteOrder env (Order.id order), getOrders env}"
    by (cases b)
      (auto simp: click_def terminal_def handleCancelOrder_def handleDeleteOrder_def
         split: if_splits)
next
  show "orders_cancel_disabled old = (orders_Order.status old \<noteq> ''active'')"
    by (simp add: orders_cancel_disabled_def)
next
  assume "orders_Order.status old \<noteq> ''active''"
  then show "orders_click_cancel env old = []"
    by (simp add: orders_click_cancel_def orders_cancel_disabled_def)
qed

text \<open>The guard at a filled order: its cancel button is disabled, a click on it sends
  nothing, and a click on its delete button sends the delete and the refetch only. The
  same for a filled order of the second list.\<close>

lemma cancel_button_guard_example:
  "Order.status (example_order 1 FILLED) \<in> {PENDING, FILLED, CANCELLED, FAILED}
   \<and> terminal (Order.status (example_order 1 FILLED))
   \<and> button_disabled CancelButton (example_order 1 FILLED)
   \<and> click None True CancelButton (example_order 1 FILLED) = []
   \<and> set (click None True DeleteButton (example_order 1 FILLED))
        \<subseteq> {deleteOrder None (Order.id (example_order 1 FILLED)), getOrders None}
   \<and> orders_click_cancel None
        \<lparr>orders_Order.id = 1, title = ''t'', description = None, status = ''filled'',
         symbol = ''AAPL'', quantity = 10, order_type = ''market'', side = ''buy'',
         price = None, provider = ''alpaca'', created_at = ''c'', updated_at = ''u''\<rparr> = []"
proof -
  have h: "Order.status (example_order 1 FILLED) \<in> {PENDING, FILLED, CANCELLED, FAILED}"
    "terminal (Order.status (example_order 1 FILLED))"
    by (simp_all add: example_order_def terminal_def)
  have g: "orders_Order.status
        \<lparr>orders_Order.id = 1, title = ''t'', description = None, status = ''filled'',
         symbol = ''AAPL'', quantity = 10, order_type = ''market'', side = ''buy'',
         price = None, provider = ''alpaca'', created_at = ''c'', updated_at = ''u''\<rparr>
       \<noteq> ''active''"
    by simp
  show ?thesis
    using h g
      cancel_button_guard [of "example_order 1 FILLED" None True
        "\<lparr>orders_Order.id = 1, title = ''t'', description = None, status = ''filled'',
         symbol = ''AAPL'', quantity = 10, order_type = ''market'', side = ''buy'',
         price = None, provider = ''alpaca'', created_at = ''c'', updated_at = ''u''\<rparr>"]
    by blast
qed

text \<open>
  In the first list a cancel that succeeded is followed by the refetch of the orders, so
  the row shows the new status before the next click.
\<close>

lemma cancel_then_refetch:
  "Order.status order = ACTIVE
   \<Longrightarrow> click env True CancelButton order = [cancelOrder env (Order.id order), getOrders env]"
  by (simp add: click_def handleCancelOrder_def)


text \<open>
  C5: the delete button of a row is disabled exactly when the order is \<open>ACTIVE\<close>. For an
  \<open>ACTIVE\<close> order a click on it sends nothing, and no button of the row sends a delete
  request; for any other order the click runs \<^verbatim>\<open>handleDeleteOrder\<close> on the order's id.
\<close>

theorem C5_delete_disabled_iff_active:
  "(button_disabled DeleteButton order \<longleftrightarrow> Order.status order = ACTIVE)
   \<and> (Order.status order = ACTIVE
        \<longrightarrow> click env ok DeleteButton order = []
          \<and> (\<forall>b i. deleteOrder env i \<notin> set (click env ok b order)))
   \<and> (Order.status order \<noteq> ACTIVE
        \<longrightarrow> click env ok DeleteButton order = handleDeleteOrder env ok (Order.id order))"
proof (intro conjI allI impI)
  show "button_disabled DeleteButton order = (Order.status order = ACTIVE)" by simp
next
  assume "Order.status order = ACTIVE"
  then show "click env ok DeleteButton order = []" by (simp add: click_def)
next
  fix b i assume "Order.status order = ACTIVE"
  then show "deleteOrder env i \<notin> set (click env ok b order)"
    by (cases b)
      (auto simp: click_def handleCancelOrder_def cancelOrder_def deleteOrder_def getOrders_def)
next
  assume "Order.status order \<noteq> ACTIVE"
  then show "click env ok DeleteButton order = handleDeleteOrder env ok (Order.id order)"
    by (simp add: click_def)
qed

text \<open>C5 at an active order (no delete request from any button) and at a cancelled one
  (the delete request and the refetch).\<close>

theorem C5_delete_disabled_iff_active_witness:
  "Order.status (example_order 1 ACTIVE) = ACTIVE
   \<and> click None True DeleteButton (example_order 1 ACTIVE) = []
   \<and> deleteOrder None 1 \<notin> set (click None True CancelButton (example_order 1 ACTIVE))
   \<and> Order.status (example_order 2 CANCELLED) \<noteq> ACTIVE
   \<and> click None True DeleteButton (example_order 2 CANCELLED)
       = [deleteOrder None 2, getOrders None]"
proof -
  have h: "Order.status (example_order 1 ACTIVE) = ACTIVE"
    "Order.status (example_order 2 CANCELLED) \<noteq> ACTIVE"
    by (simp_all add: example_order_def)
  have i: "handleDeleteOrder None True (Order.id (example_order 2 CANCELLED))
             = [deleteOrder None 2, getOrders None]"
    by (simp add: handleDeleteOrder_def example_order_def)
  show ?thesis
    using h i
      C5_delete_disabled_iff_active [of "example_order 1 ACTIVE" None True]
      C5_delete_disabled_iff_active [of "example_order 2 CANCELLED" None True]
    by simp
qed

subsection \<open>The order-creation form\<close>

text \<open>Reading a property after \<^verbatim>\<open>{...prev, [name]: value}\<close>.\<close>

lemma obj_get_obj_set:
  "obj_get (obj_set k v ob) k' = (if k' = k then Some v else obj_get ob k')"
  by (induction ob) (auto simp: obj_get_def)

text \<open>No input of the form is named \<^verbatim>\<open>price\<close>, so the generic price property is never
  written: neither the form data nor any request sent has it.\<close>

lemma form_step_price_free:
  assumes "price_free s"
  shows "price_free (form_step env s ev)"
proof (cases s)
  case (Pair fd sent)
  show ?thesis
  proof (cases ev)
    case (Change name v)
    have "name \<noteq> ''price''" if "can_report fd name v"
      using that by (auto simp: can_report_def inputs_def split: if_splits)
    then show ?thesis using assms Pair Change
      by (auto simp: price_free_def handleChange_def obj_get_obj_set)
  next
    case (Submit ok)
    have "obj_get initial_formData ''price'' = None"
      by (simp add: initial_formData_def obj_get_def)
    then show ?thesis using assms Pair Submit
      by (auto simp: price_free_def handleSubmit_def createOrder_def)
  qed
qed

lemma foldl_form_step_price_free:
  "price_free s \<Longrightarrow> price_free (foldl (form_step env) s evs)"
  by (induction evs arbitrary: s) (simp_all add: form_step_price_free)

lemma use_form_price_free: "price_free (use_form env evs)"
proof -
  have "price_free (initial_formData, [])"
    by (simp add: price_free_def initial_formData_def obj_get_def)
  then show ?thesis unfolding use_form_def by (rule foldl_form_step_price_free)
qed

text \<open>The price inputs are rendered for exactly the order types that need them.\<close>

lemma price_inputs_rendered:
  "(''limit_price'' \<in> set (inputs fd)
      \<longleftrightarrow> is_type fd LIMIT \<or> is_type fd STOP_LIMIT)
   \<and> (''stop_price'' \<in> set (inputs fd)
      \<longleftrightarrow> is_type fd STOP \<or> is_type fd STOP_LIMIT)"
  by (auto simp: inputs_def shows_limit_price_def shows_stop_price_def is_type_def)

text \<open>
  C8 holds for the generic price and for the inputs the form renders, but not for the
  orders it sends: changing the order type hides a price input without clearing what
  was typed into it. The user fills in title, symbol and quantity, selects
  \<^verbatim>\<open>limit\<close>, types the limit price 150, selects \<^verbatim>\<open>market\<close> again and submits. The one
  request sent is a market order that carries \<^verbatim>\<open>limit_price: '150'\<close>.
\<close>

theorem C8_market_order_with_stale_limit_price:
  "map (\<lambda>r. map_option
               (\<lambda>b. (obj_get b ''order_type'', obj_get b ''limit_price'', obj_get b ''price''))
               (req_body r))
     (snd (use_form None
        [Change ''title'' (JStr ''Buy AAPL''),
         Change ''symbol'' (JStr ''AAPL''),
         Change ''quantity'' (JStr ''10''),
         Change ''order_type'' (JStr ''limit''),
         Change ''limit_price'' (JStr ''150''),
         Change ''order_type'' (JStr ''market''),
         Submit True]))
   = [Some (Some (JStr ''market''), Some (JStr ''150''), None)]"
  by (simp add: use_form_def can_report_def inputs_def shows_limit_price_def
      shows_stop_price_def is_type_def obj_get_def options_def handleChange_def
      initial_formData_def PROVIDERS_def can_submit_def shown_empty_def handleSubmit_def
      createOrder_def)

subsection \<open>Webhook subscriptions\<close>

lemma WebhookEvent_UNIV:
  "(UNIV :: WebhookEvent set)
     = {ORDER_CREATED, ORDER_UPDATED, ORDER_CANCELLED, ORDER_FILLED, ORDER_FAILED}"
proof -
  have "e \<in> {ORDER_CREATED, ORDER_UPDATED, ORDER_CANCELLED, ORDER_FILLED, ORDER_FAILED}"
    for e :: WebhookEvent
    by (cases e) simp_all
  then show ?thesis by blast
qed

text \<open>
  C7: a webhook subscription is determined by its id, name, url, events, active flag and
  two timestamps, so it has an id, a url, an active flag and an event set. Every event of
  its event set is one of the five event types (order created, updated, cancelled,
  filled, failed); the type of events has exactly these five values, which travel as
  five different strings.
\<close>

theorem C7_webhook_subscription_shape:
  "w = \<lparr>WebhookConfig.id = WebhookConfig.id w,
        name = WebhookConfig.name w,
        url = WebhookConfig.url w,
        events = WebhookConfig.events w,
        is_active = WebhookConfig.is_active w,
        created_at = WebhookConfig.created_at w,
        updated_at = WebhookConfig.updated_at w\<rparr>
   \<and> set (WebhookConfig.events w)
        \<subseteq> {ORDER_CREATED, ORDER_UPDATED, ORDER_CANCELLED, ORDER_FILLED, ORDER_FAILED}
   \<and> card (UNIV :: WebhookEvent set) = 5
   \<and> WebhookEvent_value ` set (WebhookConfig.events w)
        \<subseteq> {''order_created'', ''order_updated'', ''order_cancelled'',
            ''order_filled'', ''order_failed''}
   \<and> inj WebhookEvent_value"
proof (intro conjI)
  show "w = \<lparr>WebhookConfig.id = WebhookConfig.id w,
        name = WebhookConfig.name w,
        url = WebhookConfig.url w,
        events = WebhookConfig.events w,
        is_active = WebhookConfig.is_active w,
        created_at = WebhookConfig.created_at w,
        updated_at = WebhookConfig.updated_at w\<rparr>"
    by simp
  show "set (WebhookConfig.events w)
        \<subseteq> {ORDER_CREATED, ORDER_UPDATED, ORDER_CANCELLED, ORDER_FILLED, ORDER_FAILED}"
    using WebhookEvent_UNIV by blast
  show "card (UNIV :: WebhookEvent set) = 5"
    by (simp add: WebhookEvent_UNIV)
  show "WebhookEvent_value ` set (WebhookConfig.events w)
        \<subseteq> {''order_created'', ''order_updated'', ''order_cancelled'',
            ''order_filled'', ''order_failed''}"
  proof
    fix s assume "s \<in> WebhookEvent_value ` set (WebhookConfig.events w)"
    then obtain e where "s = WebhookEvent_value e" by blast
    then show "s \<in> {''order_created'', ''order_updated'', ''order_cancelled'',
            ''order_filled'', ''order_failed''}"
      by (cases e) simp_all
  qed
  show "inj WebhookEvent_value"
  proof (rule injI)
    fix a b assume "WebhookEvent_value a = WebhookEvent_value b"
    then show "a = b" by (cases a; cases b) simp_all
  qed
qed

text \<open>C7 at a subscription to fills and failures.\<close>

theorem C7_webhook_subscription_shape_witness:
  "set (WebhookConfig.events (example_webhook 1 [ORDER_FILLED, ORDER_FAILED]))
     \<subseteq> {ORDER_CREATED, ORDER_UPDATED, ORDER_CANCELLED, ORDER_FILLED, ORDER_FAILED}
   \<and> WebhookEvent_value ` set (WebhookConfig.events (example_webhook 1 [ORDER_FILLED, ORDER_FAILED]))
     \<subseteq> {''order_created'', ''order_updated'', ''order_cancelled'',
         ''order_filled'', ''order_failed''}"
  using C7_webhook_subscription_shape [of "example_webhook 1 [ORDER_FILLED, ORDER_FAILED]"]
  by blast

text \<open>
  C9: submitting the webhook-creation form while its events list is empty sends no
  request and leaves the form data as they are; only the error message is set. Every
  request a submit sends carries form data with at least one event, and a submit with a
  non-empty events list sends exactly the form data.
\<close>

theorem C9_empty_events_not_sent:
  "(CreateWebhookRequest.events (formData st) = []
      \<longrightarrow> CreateWebhookForm_handleSubmit env st
            = (st\<lparr>error := Some ''Please select at least one event''\<rparr>, [])
        \<and> formData (fst (CreateWebhookForm_handleSubmit env st)) = formData st)
   \<and> (\<forall>r \<in> set (snd (CreateWebhookForm_handleSubmit env st)).
         \<exists>w. req_body r = Some w \<and> CreateWebhookRequest.events w \<noteq> [])
   \<and> (CreateWebhookRequest.events (formData st) \<noteq> []
      \<longrightarrow> CreateWebhookForm_handleSubmit env st = (st, [createWebhook env (formData st)]))"
  by (auto simp: CreateWebhookForm_handleSubmit_def createWebhook_def)

text \<open>C9 at the initial form with a name typed in (no request, the message set), and
  at the same form after one event was ticked (one request, which carries the event).\<close>

theorem C9_empty_events_not_sent_witness:
  "CreateWebhookRequest.events
      (formData (CreateWebhookForm_handleChange name_field ''alerts'' CreateWebhookForm_initial)) = []
   \<and> snd (CreateWebhookForm_handleSubmit None
        (CreateWebhookForm_handleChange name_field ''alerts'' CreateWebhookForm_initial)) = []
   \<and> error (fst (CreateWebhookForm_handleSubmit None
        (CreateWebhookForm_handleChange name_field ''alerts'' CreateWebhookForm_initial)))
       = Some ''Please select at least one event''
   \<and> CreateWebhookRequest.events (formData (handleEventToggle ORDER_FILLED CreateWebhookForm_initial)) \<noteq> []
   \<and> map (\<lambda>r. map_option CreateWebhookRequest.events (req_body r))
        (snd (CreateWebhookForm_handleSubmit None
           (handleEventToggle ORDER_FILLED CreateWebhookForm_initial)))
       = [Some [ORDER_FILLED]]"
proof -
  have h: "CreateWebhookRequest.events
      (formData (CreateWebhookForm_handleChange name_field ''alerts'' CreateWebhookForm_initial)) = []"
    by (simp add: CreateWebhookForm_initial_def)
  have g: "CreateWebhookRequest.events
      (formData (handleEventToggle ORDER_FILLED CreateWebhookForm_initial)) = [ORDER_FILLED]"
    by (simp add: handleEventToggle_def CreateWebhookForm_initial_def Let_def)
  show ?thesis
    using h g
      C9_empty_events_not_sent
        [of "CreateWebhookForm_handleChange name_field ''alerts'' CreateWebhookForm_initial" None]
      C9_empty_events_not_sent [of "handleEventToggle ORDER_FILLED CreateWebhookForm_initial" None]
    by (simp add: createWebhook_def)
qed




section \<open>Properties of the order chain engine\<close>

subsection \<open>Chain builder\<close>

text \<open>
  C3: a chain-creation request of the wrong cardinality (a bracket with a number of
  orders other than three, an OCO with a number of orders other than two) fails with
  \<open>ValidationError\<close> and leaves the store as it was, whatever the venue would answer
  and whatever the other validation checks say.
\<close>

theorem C3_wrong_cardinality_rejected:
  "(ct = BRACKET \<and> length specs \<noteq> 3) \<or> (ct = OCO \<and> length specs \<noteq> 2)
   \<Longrightarrow> createChain venue well_formed now cid ct specs st = (Inl ValidationError, st)"
  by (auto simp: createChain_def)

text \<open>C3 at a bracket of two orders and at an OCO of three, on a store that already
  holds a chain.\<close>

theorem C3_wrong_cardinality_rejected_witness:
  "length [example_spec, example_spec] \<noteq> 3
   \<and> createChain example_venue (\<lambda>ct specs. True) ''now'' ''chain-2'' BRACKET
        [example_spec, example_spec] example_store
       = (Inl ValidationError, example_store)
   \<and> length [example_spec, example_spec, example_spec] \<noteq> 2
   \<and> createChain example_venue (\<lambda>ct specs. True) ''now'' ''chain-2'' OCO
        [example_spec, example_spec, example_spec] example_store
       = (Inl ValidationError, example_store)"
  using
    C3_wrong_cardinality_rejected
      [of BRACKET "[example_spec, example_spec]" example_venue "\<lambda>ct specs. True"
          "''now''" "''chain-2''" example_store]
    C3_wrong_cardinality_rejected
      [of OCO "[example_spec, example_spec, example_spec]" example_venue "\<lambda>ct specs. True"
          "''now''" "''chain-2''" example_store]
  by simp

subsection \<open>Notification dispatcher\<close>

lemma tasks_for_enqueue_other:
  "WebhookConfig.id sub \<notin> WebhookConfig.id ` set subs \<Longrightarrow> tasks_for sub (enqueue tr subs) = []"
  by (induction subs) (auto simp: tasks_for_def enqueue_def delivery_task_def)

lemma tasks_for_enqueue:
  "distinct (map WebhookConfig.id subs) \<Longrightarrow> sub \<in> set subs
   \<Longrightarrow> tasks_for sub (enqueue tr subs)
       = (if subscribed tr sub then [delivery_task tr sub] else [])"
proof (induction subs)
  case Nil
  then show ?case by simp
next
  case (Cons a subs)
  show ?case
  proof (cases "a = sub")
    case True
    with Cons.prems have "WebhookConfig.id sub \<notin> WebhookConfig.id ` set subs" by auto
    then have "tasks_for sub (enqueue tr subs) = []" by (rule tasks_for_enqueue_other)
    then show ?thesis using True
      by (simp add: tasks_for_def enqueue_def delivery_task_def)
  next
    case False
    with Cons.prems have in_rest: "sub \<in> set subs"
      and d: "distinct (map WebhookConfig.id subs)"
      and ne: "WebhookConfig.id a \<noteq> WebhookConfig.id sub" by auto
    have "tasks_for sub (enqueue tr (a # subs)) = tasks_for sub (enqueue tr subs)"
      using ne by (simp add: tasks_for_def enqueue_def delivery_task_def)
    then show ?thesis using Cons.IH [OF d in_rest] by simp
  qed
qed

text \<open>
  C6: among subscriptions with distinct ids, a committed transition enqueues a delivery
  task for a subscription if and only if the subscription is active and its event set
  contains the event type of the transition; then it enqueues exactly one task, the one
  for that subscription and transition. A subscription whose event set does not contain
  the filled event gets no task for a \<open>FILLED\<close> transition.
\<close>

theorem C6_one_task_per_matching_subscription:
  assumes "distinct (map WebhookConfig.id subs)" and "sub \<in> set subs"
  shows "(tasks_for sub (enqueue tr subs) \<noteq> []
            \<longleftrightarrow> WebhookConfig.is_active sub
                \<and> event_type (transition_kind tr) \<in> set (WebhookConfig.events sub))
       \<and> length (tasks_for sub (enqueue tr subs)) \<le> 1
       \<and> (WebhookConfig.is_active sub
            \<and> event_type (transition_kind tr) \<in> set (WebhookConfig.events sub)
          \<longrightarrow> tasks_for sub (enqueue tr subs) = [delivery_task tr sub])
       \<and> (transition_kind tr = StatusChange FILLED
            \<and> ORDER_FILLED \<notin> set (WebhookConfig.events sub)
          \<longrightarrow> tasks_for sub (enqueue tr subs) = [])"
  using tasks_for_enqueue [OF assms, of tr] by (auto simp: subscribed_def)

text \<open>C6 at a \<open>FILLED\<close> transition and two subscriptions: the one to fills gets one task,
  the one to cancellations and failures gets none.\<close>

theorem C6_one_task_per_matching_subscription_witness:
  "distinct (map WebhookConfig.id
      [example_webhook 1 [ORDER_FILLED], example_webhook 2 [ORDER_CANCELLED, ORDER_FAILED]])
   \<and> length (tasks_for (example_webhook 1 [ORDER_FILLED])
        (enqueue \<lparr>transition_order = example_order 1 FILLED,
                  transition_kind = StatusChange FILLED, transition_time = ''t''\<rparr>
           [example_webhook 1 [ORDER_FILLED], example_webhook 2 [ORDER_CANCELLED, ORDER_FAILED]]))
       = 1
   \<and> tasks_for (example_webhook 2 [ORDER_CANCELLED, ORDER_FAILED])
        (enqueue \<lparr>transition_order = example_order 1 FILLED,
                  transition_kind = StatusChange FILLED, transition_time = ''t''\<rparr>
           [example_webhook 1 [ORDER_FILLED], example_webhook 2 [ORDER_CANCELLED, ORDER_FAILED]])
       = []"
proof -
  let ?subs = "[example_webhook 1 [ORDER_FILLED], example_webhook 2 [ORDER_CANCELLED, ORDER_FAILED]]"
  let ?tr = "\<lparr>transition_order = example_order 1 FILLED,
              transition_kind = StatusChange FILLED, transition_time = ''t''\<rparr>"
  have d: "distinct (map WebhookConfig.id ?subs)"
    by (simp add: example_webhook_def)
  have m1: "example_webhook 1 [ORDER_FILLED] \<in> set ?subs"
    and m2: "example_webhook 2 [ORDER_CANCELLED, ORDER_FAILED] \<in> set ?subs"
    by simp_all
  have a1: "WebhookConfig.is_active (example_webhook 1 [ORDER_FILLED])
      \<and> event_type (transition_kind ?tr) \<in> set (WebhookConfig.events (example_webhook 1 [ORDER_FILLED]))"
    by (simp add: example_webhook_def)
  have a2: "transition_kind ?tr = StatusChange FILLED
      \<and> ORDER_FILLED \<notin> set (WebhookConfig.events (example_webhook 2 [ORDER_CANCELLED, ORDER_FAILED]))"
    by (simp add: example_webhook_def)
  from C6_one_task_per_matching_subscription [OF d m1, of ?tr] a1
  have "length (tasks_for (example_webhook 1 [ORDER_FILLED]) (enqueue ?tr ?subs)) = 1"
    by simp
  moreover from C6_one_task_per_matching_subscription [OF d m2, of ?tr] a2
  have "tasks_for (example_webhook 2 [ORDER_CANCELLED, ORDER_FAILED]) (enqueue ?tr ?subs) = []"
    by blast
  ultimately show ?thesis using d by blast
qed

subsection \<open>Transition engine\<close>

text \<open>Updating the orders of one id by a function that keeps the id.\<close>

lemma find_order_update:
  assumes "\<And>x. Order.id (f x) = Order.id x"
  shows "find_order (update_order i f st) j
           = (if j = i then map_option f (find_order st i) else find_order st j)"
proof -
  have "find (\<lambda>ord. Order.id ord = j) (map (\<lambda>ord. if Order.id ord = i then f ord else ord) xs)
          = (if j = i then map_option f (find (\<lambda>ord. Order.id ord = i) xs)
             else find (\<lambda>ord. Order.id ord = j) xs)" for xs
    by (induction xs) (auto simp: assms)
  then show ?thesis by (simp add: find_order_def update_order_def)
qed

lemma outgoing_update: "outgoing (update_order i f st) j = outgoing st j"
  by (simp add: outgoing_def update_order_def)

lemma submit_target_id: "Order.id (submit_target venue x) = Order.id x"
  by (simp add: submit_target_def split: option.splits)

lemma cancel_target_id: "Order.id (cancel_target venue x) = Order.id x"
  by (simp add: cancel_target_def)

text \<open>An edge action never touches an order that is in a terminal status.\<close>

lemma edge_action_keeps_terminal:
  assumes "status_of st x = Some s" and "terminal s"
  shows "status_of (fst (edge_action venue src new e st)) x = Some s"
proof (cases "find_order st (to_order_id e)")
  case None
  then show ?thesis using assms by (simp add: edge_action_def Let_def)
next
  case (Some target)
  show ?thesis
  proof (cases "x = to_order_id e")
    case True
    with Some assms have "terminal (Order.status target)"
      by (simp add: status_of_def)
    then show ?thesis using Some assms
      by (auto simp: edge_action_def Let_def terminal_def)
  next
    case False
    then show ?thesis using Some assms
      by (simp add: edge_action_def Let_def status_of_def find_order_update
          submit_target_id cancel_target_id)
  qed
qed

lemma process_edges_keeps_terminal:
  "status_of st x = Some s \<Longrightarrow> terminal s
   \<Longrightarrow> status_of (fst (process_edges venue src new es st)) x = Some s"
proof (induction es arbitrary: st)
  case Nil
  then show ?case by simp
next
  case (Cons e es)
  have "status_of (fst (edge_action venue src new e st)) x = Some s"
    using Cons.prems by (rule edge_action_keeps_terminal)
  then have "status_of
      (fst (process_edges venue src new es (fst (edge_action venue src new e st)))) x = Some s"
    using Cons.prems(2) by (rule Cons.IH)
  then show ?case by (simp add: case_prod_unfold)
qed

text \<open>No edge condition matches the status \<open>ACTIVE\<close>.\<close>

lemma edge_action_active: "edge_action venue src ACTIVE e st = (st, [])"
  by (simp add: edge_action_def Let_def split: option.splits)

lemma process_edges_active: "process_edges venue src ACTIVE es st = (st, [])"
  by (induction es) (simp_all add: edge_action_active)

text \<open>Each edge runs at most one action.\<close>

lemma edge_action_length: "length (snd (edge_action venue src new e st)) \<le> 1"
  by (simp add: edge_action_def Let_def split: option.splits)

lemma process_edges_length: "length (snd (process_edges venue src new es st)) \<le> length es"
proof (induction es arbitrary: st)
  case Nil
  then show ?case by simp
next
  case (Cons e es)
  have "length (snd (edge_action venue src new e st)) \<le> 1"
    by (rule edge_action_length)
  moreover have
    "length (snd (process_edges venue src new es (fst (edge_action venue src new e st))))
      \<le> length es"
    by (rule Cons.IH)
  ultimately show ?case by (simp add: case_prod_unfold)
qed

lemma applyStatus_length:
  "length (snd (applyStatus venue st oid r fd)) \<le> length (outgoing st oid)"
proof -
  have "length (snd (process_edges venue oid r (outgoing st oid) c)) \<le> length (outgoing st oid)"
    for c
    by (rule process_edges_length)
  then show ?thesis
    by (simp add: applyStatus_def Let_def outgoing_update split: option.splits)
qed

text \<open>An edge acts on its own target, if it acts at all; so the targets acted on, in the
  order of the actions, are a subsequence of the targets of the edges processed, and the
  actions are distinct when those targets are.\<close>

lemma edge_action_target:
  "map action_target (snd (edge_action venue src new e st)) = []
   \<or> map action_target (snd (edge_action venue src new e st)) = [to_order_id e]"
  by (simp add: edge_action_def Let_def split: option.splits)

lemma process_edges_targets:
  "subseq (map action_target (snd (process_edges venue src new es st))) (map to_order_id es)"
proof (induction es arbitrary: st)
  case Nil
  then show ?case by simp
next
  case (Cons e es)
  let ?st1 = "fst (edge_action venue src new e st)"
  have rest: "subseq (map action_target (snd (process_edges venue src new es ?st1)))
      (map to_order_id es)"
    by (rule Cons.IH)
  from edge_action_target [of venue src new e st] show ?case
  proof
    assume "map action_target (snd (edge_action venue src new e st)) = []"
    moreover from rest
    have "subseq (map action_target (snd (process_edges venue src new es ?st1)))
        ([to_order_id e] @ map to_order_id es)"
      by (rule subseq_drop_many)
    ultimately show ?thesis by (simp add: case_prod_unfold)
  next
    assume "map action_target (snd (edge_action venue src new e st)) = [to_order_id e]"
    then show ?thesis using rest by (simp add: case_prod_unfold)
  qed
qed

lemma applyStatus_targets:
  "subseq (map action_target (snd (applyStatus venue st oid r fd)))
     (map to_order_id (outgoing st oid))"
proof -
  have "subseq (map action_target (snd (process_edges venue oid r (outgoing st oid) c)))
      (map to_order_id (outgoing st oid))" for c
    by (rule process_edges_targets)
  then show ?thesis
    by (simp add: applyStatus_def Let_def outgoing_update split: option.splits)
qed

lemma subseq_keeps_distinct: "subseq xs ys \<Longrightarrow> distinct ys \<Longrightarrow> distinct xs"
  by (auto simp: subseq_conv_nths)

lemma applyStatus_distinct:
  assumes "distinct (map to_order_id (outgoing st oid))"
  shows "distinct (snd (applyStatus venue st oid r fd))"
proof -
  have "distinct (map action_target (snd (applyStatus venue st oid r fd)))"
    using applyStatus_targets assms by (rule subseq_keeps_distinct)
  then show ?thesis by (simp add: distinct_map)
qed

text \<open>Forward progress leads to \<open>ACTIVE\<close> or to a terminal status, and no status is
  forward progress from itself.\<close>

lemma forward_target: "forward cur new \<Longrightarrow> new = ACTIVE \<or> terminal new"
  by (cases cur; cases new) (simp_all add: terminal_def)

lemma forward_irrefl: "\<not> forward r r"
  by (cases r) simp_all

text \<open>After a committed transition the order has the reported status, whatever its
  edges did.\<close>

lemma applyStatus_status:
  assumes "find_order st oid = Some ord" and "\<not> terminal (Order.status ord)"
    and "forward (Order.status ord) r"
  shows "status_of (fst (applyStatus venue st oid r fd)) oid = Some r"
proof -
  let ?c = "update_order oid (\<lambda>x. x\<lparr>Order.status := r\<rparr>) st"
  have c: "status_of ?c oid = Some r"
    using assms(1) by (simp add: status_of_def find_order_update)
  have a: "applyStatus venue st oid r fd = process_edges venue oid r (outgoing ?c oid) ?c"
    using assms by (simp add: applyStatus_def Let_def)
  from forward_target [OF assms(3)] show ?thesis
  proof
    assume "r = ACTIVE"
    then show ?thesis using a c by (simp add: process_edges_active)
  next
    assume "terminal r"
    with c show ?thesis unfolding a by (rule process_edges_keeps_terminal)
  qed
qed

lemma applyStatus_noop:
  "status_of st oid = Some s \<Longrightarrow> terminal s \<or> \<not> forward s r
   \<Longrightarrow> applyStatus venue st oid r fd = (st, [])"
  by (auto simp: applyStatus_def status_of_def split: option.splits)

lemma applyStatus_replay:
  "applyStatus venue (fst (applyStatus venue st oid r fd)) oid r fd'
     = (fst (applyStatus venue st oid r fd), [])"
proof (cases "find_order st oid")
  case None
  then show ?thesis by (simp add: applyStatus_def)
next
  case (Some ord)
  show ?thesis
  proof (cases "terminal (Order.status ord) \<or> \<not> forward (Order.status ord) r")
    case True
    then have "applyStatus venue st oid r fd = (st, [])"
      using Some by (simp add: applyStatus_def)
    moreover from True have "applyStatus venue st oid r fd' = (st, [])"
      using Some by (simp add: applyStatus_def)
    ultimately show ?thesis by simp
  next
    case False
    then have "status_of (fst (applyStatus venue st oid r fd)) oid = Some r"
      using Some by (simp add: applyStatus_status)
    moreover have "terminal r \<or> \<not> forward r r" by (simp add: forward_irrefl)
    ultimately show ?thesis by (rule applyStatus_noop)
  qed
qed

text \<open>The fill of one leg of an OCO chain whose other leg is active.\<close>

lemma oco_fill:
  assumes a: "find_order st a = Some oa" and sa: "Order.status oa = ACTIVE"
    and b: "find_order st b = Some ob" and sb: "Order.status ob = ACTIVE"
    and ne: "a \<noteq> b"
    and out: "outgoing st a = [e]" and to: "to_order_id e = b"
    and ct: "condition_type e = on_fill"
    and ack: "cancel_acknowledged venue ob"
  shows "snd (applyStatus venue st a FILLED fd) = [CancelTarget b]"
    and "status_of (fst (applyStatus venue st a FILLED fd)) a = Some FILLED"
    and "status_of (fst (applyStatus venue st a FILLED fd)) b = Some CANCELLED"
proof -
  let ?c = "update_order a (\<lambda>x. x\<lparr>Order.status := FILLED\<rparr>) st"
  have fb: "find_order ?c b = Some ob"
    using b ne by (simp add: find_order_update)
  have ea: "edge_action venue a FILLED e ?c
              = (update_order b (cancel_target venue) ?c, [CancelTarget b])"
    using fb sb ne to ct by (simp add: edge_action_def Let_def)
  have ap: "applyStatus venue st a FILLED fd
              = (update_order b (cancel_target venue) ?c, [CancelTarget b])"
    using a sa out ea by (simp add: applyStatus_def Let_def terminal_def outgoing_update)
  show "snd (applyStatus venue st a FILLED fd) = [CancelTarget b]"
    by (simp add: ap)
  show "status_of (fst (applyStatus venue st a FILLED fd)) a = Some FILLED"
    using a ne by (simp add: ap status_of_def find_order_update cancel_target_id)
  show "status_of (fst (applyStatus venue st a FILLED fd)) b = Some CANCELLED"
    using fb ack
    by (simp add: ap status_of_def find_order_update cancel_target_id cancel_target_def)
qed

text \<open>
  C2: \<^verbatim>\<open>applyStatus\<close> is idempotent. Applying the report \<open>(oid, r)\<close> again, to the store
  the first application left, returns that store unchanged and runs no edge action.
  The first application runs each outgoing edge of the order at most once: it runs no
  more actions than the order has outgoing edges, the targets it acts on are, in order,
  a subsequence of the targets of those edges, and when those targets are distinct no
  action is run twice. In particular, let \<open>a\<close> and \<open>b\<close> be the active legs of an OCO chain, \<open>a\<close> having the one
  outgoing edge, an \<open>on_fill\<close> edge to \<open>b\<close>, and let the venue acknowledge the cancel of
  \<open>b\<close>. Then a \<open>FILLED\<close> report for \<open>a\<close> runs exactly one action, the cancel of \<open>b\<close>,
  and leaves \<open>a\<close> \<open>FILLED\<close> and \<open>b\<close> \<open>CANCELLED\<close>; afterwards every report for \<open>a\<close> (a
  duplicate \<open>FILLED\<close> among them) and every report for \<open>b\<close> changes nothing and runs no
  action.
\<close>

theorem C2_applyStatus_idempotent:
  "applyStatus venue (fst (applyStatus venue st oid r fd)) oid r fd'
     = (fst (applyStatus venue st oid r fd), [])
   \<and> length (snd (applyStatus venue st oid r fd)) \<le> length (outgoing st oid)
   \<and> subseq (map action_target (snd (applyStatus venue st oid r fd)))
        (map to_order_id (outgoing st oid))
   \<and> (distinct (map to_order_id (outgoing st oid))
        \<longrightarrow> distinct (snd (applyStatus venue st oid r fd)))
   \<and> (find_order st a = Some oa \<and> Order.status oa = ACTIVE
      \<and> find_order st b = Some ob \<and> Order.status ob = ACTIVE
      \<and> a \<noteq> b
      \<and> outgoing st a = [e] \<and> to_order_id e = b \<and> condition_type e = on_fill
      \<and> cancel_acknowledged venue ob
      \<longrightarrow> (let st' = fst (applyStatus venue st a FILLED fd) in
             snd (applyStatus venue st a FILLED fd) = [CancelTarget b]
           \<and> status_of st' a = Some FILLED
           \<and> status_of st' b = Some CANCELLED
           \<and> (\<forall>r'. applyStatus venue st' a r' fd' = (st', [])
                  \<and> applyStatus venue st' b r' fd' = (st', []))))"
proof (intro conjI impI)
  show "applyStatus venue (fst (applyStatus venue st oid r fd)) oid r fd'
     = (fst (applyStatus venue st oid r fd), [])"
    by (rule applyStatus_replay)
  show "length (snd (applyStatus venue st oid r fd)) \<le> length (outgoing st oid)"
    by (rule applyStatus_length)
  show "subseq (map action_target (snd (applyStatus venue st oid r fd)))
        (map to_order_id (outgoing st oid))"
    by (rule applyStatus_targets)
next
  assume "distinct (map to_order_id (outgoing st oid))"
  then show "distinct (snd (applyStatus venue st oid r fd))"
    by (rule applyStatus_distinct)
next
  assume h: "find_order st a = Some oa \<and> Order.status oa = ACTIVE
      \<and> find_order st b = Some ob \<and> Order.status ob = ACTIVE
      \<and> a \<noteq> b
      \<and> outgoing st a = [e] \<and> to_order_id e = b \<and> condition_type e = on_fill
      \<and> cancel_acknowledged venue ob"
  let ?st = "fst (applyStatus venue st a FILLED fd)"
  from h have p: "find_order st a = Some oa" "Order.status oa = ACTIVE"
    "find_order st b = Some ob" "Order.status ob = ACTIVE" "a \<noteq> b"
    "outgoing st a = [e]" "to_order_id e = b" "condition_type e = on_fill"
    "cancel_acknowledged venue ob"
    by blast+
  have acts: "snd (applyStatus venue st a FILLED fd) = [CancelTarget b]"
    and fa: "status_of ?st a = Some FILLED"
    and fb: "status_of ?st b = Some CANCELLED"
    by (rule oco_fill [OF p])+
  have "applyStatus venue ?st a r' fd' = (?st, [])" for r'
    using fa by (rule applyStatus_noop) (simp add: terminal_def)
  moreover have "applyStatus venue ?st b r' fd' = (?st, [])" for r'
    using fb by (rule applyStatus_noop) (simp add: terminal_def)
  ultimately show "let st' = fst (applyStatus venue st a FILLED fd) in
             snd (applyStatus venue st a FILLED fd) = [CancelTarget b]
           \<and> status_of st' a = Some FILLED
           \<and> status_of st' b = Some CANCELLED
           \<and> (\<forall>r'. applyStatus venue st' a r' fd' = (st', [])
                  \<and> applyStatus venue st' b r' fd' = (st', []))"
    using acts fa fb by (simp add: Let_def)
qed

text \<open>C2 at the example store, whose orders 1 and 2 are the active legs of an OCO
  chain: order 1 fills, order 2 is cancelled by one action, and a duplicate fill of
  order 1 and a late fill of order 2 find nothing to do.\<close>

theorem C2_applyStatus_idempotent_witness:
  "find_order example_store 1 = Some (example_order 1 ACTIVE)
   \<and> find_order example_store 2 = Some (example_order 2 ACTIVE)
   \<and> outgoing example_store 1 = [on_fill_edge 1 2]
   \<and> cancel_acknowledged example_venue (example_order 2 ACTIVE)
   \<and> distinct (map to_order_id (outgoing example_store 1))
   \<and> snd (applyStatus example_venue example_store 1 FILLED ()) = [CancelTarget 2]
   \<and> subseq (map action_target (snd (applyStatus example_venue example_store 1 FILLED ())))
        (map to_order_id (outgoing example_store 1))
   \<and> distinct (snd (applyStatus example_venue example_store 1 FILLED ()))
   \<and> status_of (fst (applyStatus example_venue example_store 1 FILLED ())) 1 = Some FILLED
   \<and> status_of (fst (applyStatus example_venue example_store 1 FILLED ())) 2 = Some CANCELLED
   \<and> applyStatus example_venue (fst (applyStatus example_venue example_store 1 FILLED ()))
        1 FILLED ()
       = (fst (applyStatus example_venue example_store 1 FILLED ()), [])
   \<and> applyStatus example_venue (fst (applyStatus example_venue example_store 1 FILLED ()))
        2 FILLED ()
       = (fst (applyStatus example_venue example_store 1 FILLED ()), [])"
proof -
  have h: "find_order example_store 1 = Some (example_order 1 ACTIVE)"
    "find_order example_store 2 = Some (example_order 2 ACTIVE)"
    "outgoing example_store 1 = [on_fill_edge 1 2]"
    "cancel_acknowledged example_venue (example_order 2 ACTIVE)"
    "Order.status (example_order 1 ACTIVE) = ACTIVE"
    "Order.status (example_order 2 ACTIVE) = ACTIVE"
    "to_order_id (on_fill_edge 1 2) = 2"
    "condition_type (on_fill_edge 1 2) = on_fill"
    "distinct (map to_order_id (outgoing example_store 1))"
    by (simp_all add: find_order_def outgoing_def example_store_def example_order_def
        example_venue_def cancel_acknowledged_def on_fill_edge_def)
  show ?thesis
    using h
      C2_applyStatus_idempotent
        [where venue = example_venue and st = example_store and oid = 1 and r = FILLED
           and fd = "()" and fd' = "()" and a = 1 and oa = "example_order 1 ACTIVE"
           and b = 2 and ob = "example_order 2 ACTIVE" and e = "on_fill_edge 1 2"]
    by (simp add: Let_def)
qed

end
